theory Spec2Isabelle
  imports Main
begin

text \<open>
  A model of the WhatsApp bot server: its store (DatabaseService over the schema of
  initializeDatabase), its outbound channel (WhatsAppService), the dialog and the
  per-message pipeline (BotHandler), and the two webhook routes, together with the
  verification route of the minimal server. Asynchronous functions are functions on a
  world (the store and the record of effects) that return a value or the error thrown.
\<close>

section \<open>JavaScript strings and values\<close>

text \<open>
  Strings are lists of bytes (the UTF-8 text of the JavaScript string). The three
  operations the bot applies to them are \<^verbatim>\<open>includes\<close>, \<^verbatim>\<open>toLowerCase\<close> and the
  decimal rendering of a number inside a template literal.
\<close>

fun startsWith :: "string \<Rightarrow> string \<Rightarrow> bool" where
  "startsWith text [] = True"
| "startsWith [] (c # cs) = False"
| "startsWith (t # ts) (c # cs) = (t = c \<and> startsWith ts cs)"

fun includes_str :: "string \<Rightarrow> string \<Rightarrow> bool" where
  "includes_str [] needle = (needle = [])"
| "includes_str (t # ts) needle = (startsWith (t # ts) needle \<or> includes_str ts needle)"

text \<open>
  \<^verbatim>\<open>toLowerCase\<close> on the ASCII letters; other bytes are kept. (JavaScript also lowers
  letters outside ASCII; that changes no ASCII byte of the text, except that U+0130 and
  U+212A lower to \<^verbatim>\<open>i\<close> followed by U+0307 and to \<^verbatim>\<open>k\<close>, which completes none of the
  keywords the bot searches for.)
\<close>

definition toLowerCase_char :: "char \<Rightarrow> char" where
  "toLowerCase_char c =
     (case map_of (zip ''ABCDEFGHIJKLMNOPQRSTUVWXYZ'' ''abcdefghijklmnopqrstuvwxyz'') c of
        Some l \<Rightarrow> l
      | None \<Rightarrow> c)"

definition toLowerCase :: "string \<Rightarrow> string" where
  "toLowerCase s = map toLowerCase_char s"

fun digits :: "nat \<Rightarrow> string" where
  "digits n =
     (if n < 10 then [''0123456789'' ! n]
      else digits (n div 10) @ [''0123456789'' ! (n mod 10)])"

declare digits.simps [simp del]

definition number_to_string :: "int \<Rightarrow> string" where
  "number_to_string i = (if i < 0 then CHR ''-'' # digits (nat (- i)) else digits (nat i))"

text \<open>\<^verbatim>\<open>a || b\<close> on optional strings: \<^verbatim>\<open>undefined\<close> and the empty string are falsy.\<close>

definition js_or :: "string option \<Rightarrow> string option \<Rightarrow> string option" where
  "js_or a b = (case a of None \<Rightarrow> b | Some s \<Rightarrow> if s = [] then b else Some s)"

definition truthy :: "string option \<Rightarrow> bool" where
  "truthy a = (case a of None \<Rightarrow> False | Some s \<Rightarrow> s \<noteq> [])"

text \<open>
  A session payload is a JSON object: its keys in insertion order. The object spread
  \<^verbatim>\<open>{ ...sessionData, service: v }\<close> overwrites an existing key in place and appends a
  new one.
\<close>

datatype json = JNull | JBool bool | JNumber int | JString string

type_synonym payload = "(string \<times> json) list"

fun spread_with :: "payload \<Rightarrow> string \<Rightarrow> json \<Rightarrow> payload" where
  "spread_with [] k v = [(k, v)]"
| "spread_with (p # ps) k v = (if fst p = k then (k, v) # ps else p # spread_with ps k v)"

section \<open>The schema created by initializeDatabase\<close>

type_synonym uuid = nat
type_synonym timestamp = int

record conversation =
  c_id :: uuid
  c_phone_number :: string
  c_user_name :: "string option"
  c_created_at :: timestamp
  c_updated_at :: timestamp
  c_metadata :: "payload option"

record message =
  m_id :: uuid
  m_conversation_id :: "uuid option"
  m_message_id :: "string option"
  m_phone_number :: string
  m_message_type :: string
  m_content :: "string option"
  m_media_url :: "string option"
  m_media_type :: "string option"
  m_direction :: string
  m_timestamp :: timestamp
  m_status :: string
  m_metadata :: payload

text \<open>
  A session as the bot handles it: a row of \<^verbatim>\<open>bot_sessions\<close>, or the object synthesized
  by processMessage, which has no id and no creation or update time.
\<close>

record session =
  s_id :: "uuid option"
  s_phone_number :: string
  s_session_data :: "payload option"
  s_current_step :: "string option"
  s_expires_at :: "timestamp option"
  s_created_at :: "timestamp option"
  s_updated_at :: "timestamp option"

text \<open>
  The tables keep their rows in insertion order. \<^verbatim>\<open>gen_random_uuid()\<close> is modelled by
  a counter: every generated id is fresh. The store is taken to be reachable: the only
  errors of a statement are those its own text and values provoke.
\<close>

record database =
  conversations :: "conversation list"
  messages :: "message list"
  bot_sessions :: "session list"
  next_uuid :: uuid

text \<open>
  The indexes initializeDatabase creates, per table: the primary keys, the
  \<^verbatim>\<open>UNIQUE\<close> column \<^verbatim>\<open>messages.message_id\<close>, and the four plain indexes of the
  \<^verbatim>\<open>CREATE INDEX\<close> statements. \<^verbatim>\<open>bot_sessions.phone_number\<close> has a plain index only.
\<close>

record index =
  index_name :: string
  index_columns :: "string list"
  index_unique :: bool

definition initializeDatabase :: "string \<Rightarrow> index list" where
  "initializeDatabase table =
     (if table = ''conversations'' then
        [\<lparr>index_name = ''conversations_pkey'', index_columns = [''id''], index_unique = True\<rparr>,
         \<lparr>index_name = ''idx_conversations_phone'', index_columns = [''phone_number''],
          index_unique = False\<rparr>]
      else if table = ''messages'' then
        [\<lparr>index_name = ''messages_pkey'', index_columns = [''id''], index_unique = True\<rparr>,
         \<lparr>index_name = ''messages_message_id_key'', index_columns = [''message_id''],
          index_unique = True\<rparr>,
         \<lparr>index_name = ''idx_messages_conversation'', index_columns = [''conversation_id''],
          index_unique = False\<rparr>,
         \<lparr>index_name = ''idx_messages_phone'', index_columns = [''phone_number''],
          index_unique = False\<rparr>]
      else if table = ''bot_sessions'' then
        [\<lparr>index_name = ''bot_sessions_pkey'', index_columns = [''id''], index_unique = True\<rparr>,
         \<lparr>index_name = ''idx_sessions_phone'', index_columns = [''phone_number''],
          index_unique = False\<rparr>]
      else [])"

text \<open>
  \<^verbatim>\<open>ON CONFLICT (columns)\<close> needs a unique index on exactly these columns to arbitrate;
  PostgreSQL rejects the statement when the table has none.
\<close>

definition arbiter_index :: "string \<Rightarrow> string list \<Rightarrow> bool" where
  "arbiter_index table cols =
     list_ex (\<lambda>i. index_unique i \<and> index_columns i = cols) (initializeDatabase table)"

section \<open>Effects\<close>

datatype error =
    StoreError string
  | DeliveryError
  | UpstreamError
  | TypeError

datatype service = Image | Video | Info

record api_request =
  prompt :: "string option"
  query :: "string option"
  user :: string

record api_result =
  imageUrl :: "string option"
  videoUrl :: "string option"
  response :: "string option"

datatype upstream_reply = Replied nat api_result | TimedOut | NetworkFailure

datatype outbound =
    TextMessage string "string option"
  | MediaMessage string "string option" "string option" "string option"
  | InteractiveMessage string "string option" "string option" "(string \<times> string) list"

text \<open>
  Everything the server does to the outside is recorded, in order: a call of a
  DatabaseService operation (its name and the user it concerns), a post to the messaging
  platform (and whether the platform accepted it), a post to a generation endpoint, and a
  promise rejected with nobody awaiting it.
\<close>

datatype event =
    Store string string
  | Send outbound bool
  | Generate service api_request
  | Unhandled error

text \<open>
  The surroundings decide three things, each as a function of how many effects have
  happened so far: what the clock reads (milliseconds; the store's
  \<^verbatim>\<open>CURRENT_TIMESTAMP\<close> and \<^verbatim>\<open>Date.now()\<close> read the same clock), whether the messaging
  platform accepts a send, and how a generation endpoint replies.
\<close>

record env =
  clock :: "nat \<Rightarrow> timestamp"
  platform :: "nat \<Rightarrow> bool"
  upstream :: "nat \<Rightarrow> upstream_reply"

record world =
  db :: database
  trace :: "event list"

type_synonym 'a io = "world \<Rightarrow> (error + 'a) \<times> world"

definition return :: "'a \<Rightarrow> 'a io" where
  "return x w = (Inr x, w)"

definition throw :: "error \<Rightarrow> 'a io" where
  "throw e w = (Inl e, w)"

definition await :: "'a io \<Rightarrow> ('a \<Rightarrow> 'b io) \<Rightarrow> 'b io" where
  "await m f w = (case m w of (Inl e, w') \<Rightarrow> (Inl e, w') | (Inr x, w') \<Rightarrow> f x w')"

definition try_catch :: "'a io \<Rightarrow> (error \<Rightarrow> 'a io) \<Rightarrow> 'a io" where
  "try_catch m h w = (case m w of (Inl e, w') \<Rightarrow> h e w' | (Inr x, w') \<Rightarrow> (Inr x, w'))"

definition now :: "env \<Rightarrow> world \<Rightarrow> timestamp" where
  "now e w = clock e (length (trace w))"

definition Date_now :: "env \<Rightarrow> timestamp io" where
  "Date_now e w = (Inr (now e w), w)"

definition record_event :: "event \<Rightarrow> world \<Rightarrow> world" where
  "record_event ev w = w\<lparr>trace := trace w @ [ev]\<rparr>"

section \<open>WhatsAppService\<close>

text \<open>
  One post to the platform's send endpoint. Each of the three methods catches the failure
  of its post, logs it and throws it again.
\<close>

definition post_to_platform :: "env \<Rightarrow> outbound \<Rightarrow> unit io" where
  "post_to_platform e msg w =
     (let accepted = platform e (length (trace w)); w' = record_event (Send msg accepted) w in
      if accepted then (Inr (), w') else (Inl DeliveryError, w'))"

definition sendMessage :: "env \<Rightarrow> string \<Rightarrow> string option \<Rightarrow> unit io" where
  "sendMessage e phoneNumber message_text =
     post_to_platform e (TextMessage phoneNumber message_text)"

definition sendMedia ::
  "env \<Rightarrow> string \<Rightarrow> string option \<Rightarrow> string option \<Rightarrow> string option \<Rightarrow> unit io" where
  "sendMedia e phoneNumber mediaUrl media_type caption_text =
     post_to_platform e
       (MediaMessage phoneNumber media_type mediaUrl
          (if truthy caption_text then caption_text else None))"

definition sendInteractiveMessage ::
  "env \<Rightarrow> string \<Rightarrow> string option \<Rightarrow> string option \<Rightarrow> string list option \<Rightarrow> unit io" where
  "sendInteractiveMessage e phoneNumber header_text body_text button_titles =
     (case button_titles of
        None \<Rightarrow> throw TypeError
      | Some btns \<Rightarrow>
          post_to_platform e
            (InteractiveMessage phoneNumber header_text body_text
               (map (\<lambda>(i, btn). (''btn_'' @ number_to_string (int i), btn))
                    (enumerate 0 btns))))"

section \<open>DatabaseService\<close>

text \<open>
  What the tables demand of a value. A \<^verbatim>\<open>VARCHAR(n)\<close> column counts characters: of
  the bytes of a text, those of the form 10xxxxxx continue a character. A longer value is
  refused (SQLSTATE 22001), unless all that exceeds the width is spaces: then the value
  is cut to the width. A \<^verbatim>\<open>NULL\<close> passes any width and is refused by a
  \<^verbatim>\<open>NOT NULL\<close> column (23502). The values of a row are checked in the order of the
  columns, widths first.
\<close>

definition continuation :: "char \<Rightarrow> bool" where
  "continuation c = (digit7 c \<and> \<not> digit6 c)"

definition characters :: "string \<Rightarrow> nat" where
  "characters s = length (filter (\<lambda>c. \<not> continuation c) s)"

definition rstrip :: "string \<Rightarrow> string" where
  "rstrip s = rev (dropWhile (\<lambda>c. c = CHR '' '') (rev s))"

definition varchar :: "nat \<Rightarrow> string option \<Rightarrow> error + string option" where
  "varchar n v =
     (case v of
        None \<Rightarrow> Inr None
      | Some s \<Rightarrow>
          if characters s \<le> n then Inr (Some s)
          else if characters (rstrip s) \<le> n then
            Inr (Some (rstrip s @ replicate (n - characters (rstrip s)) (CHR '' '')))
          else Inl (StoreError ''22001 value too long for type character varying''))"

definition not_null :: "string option \<Rightarrow> error + string" where
  "not_null v =
     (case v of
        None \<Rightarrow> Inl (StoreError ''23502 null value violates not-null constraint'')
      | Some s \<Rightarrow> Inr s)"

definition and_then :: "error + 'a \<Rightarrow> ('a \<Rightarrow> error + 'b) \<Rightarrow> error + 'b" where
  "and_then r f = (case r of Inl err \<Rightarrow> Inl err | Inr x \<Rightarrow> f x)"

text \<open>\<^verbatim>\<open>ORDER BY created_at DESC LIMIT 1\<close>: the newest row, the first of them when tied.\<close>

fun newest :: "conversation list \<Rightarrow> conversation option" where
  "newest [] = None"
| "newest (c # cs) =
     (case newest cs of
        None \<Rightarrow> Some c
      | Some d \<Rightarrow> if c_created_at d > c_created_at c then Some d else Some c)"

text \<open>
  The row \<^verbatim>\<open>INSERT INTO conversations (phone_number, user_name)\<close> builds:
  \<^verbatim>\<open>phone_number VARCHAR(20) NOT NULL\<close>, \<^verbatim>\<open>user_name VARCHAR(100)\<close>, the other columns
  from their defaults.
\<close>

definition conversation_row ::
  "uuid \<Rightarrow> timestamp \<Rightarrow> string option \<Rightarrow> string option \<Rightarrow> error + conversation" where
  "conversation_row new_id t phoneNumber userName =
     and_then (varchar 20 phoneNumber) (\<lambda>phone.
     and_then (varchar 100 userName) (\<lambda>name.
     and_then (not_null phone) (\<lambda>phone_number.
       Inr \<lparr>c_id = new_id, c_phone_number = phone_number, c_user_name = name,
            c_created_at = t, c_updated_at = t, c_metadata = None\<rparr>)))"

definition getOrCreateConversation :: "env \<Rightarrow> string \<Rightarrow> string option \<Rightarrow> conversation io" where
  "getOrCreateConversation e phoneNumber userName w =
     (let t = now e w; d = db w;
          w' = record_event (Store ''getOrCreateConversation'' phoneNumber) w in
      case newest (filter (\<lambda>c. c_phone_number c = phoneNumber) (conversations d)) of
        Some c \<Rightarrow> (Inr c, w')
      | None \<Rightarrow>
          (case conversation_row (next_uuid d) t (Some phoneNumber) userName of
             Inl err \<Rightarrow> (Inl err, w')
           | Inr c \<Rightarrow>
               (Inr c, w'\<lparr>db := d\<lparr>conversations := conversations d @ [c],
                                     next_uuid := Suc (next_uuid d)\<rparr>\<rparr>)))"

text \<open>
  The row \<^verbatim>\<open>INSERT INTO messages\<close> builds from the nine parameters:
  \<^verbatim>\<open>message_id VARCHAR(100)\<close>, \<^verbatim>\<open>phone_number VARCHAR(20) NOT NULL\<close>,
  \<^verbatim>\<open>message_type VARCHAR(20) NOT NULL\<close>, \<^verbatim>\<open>media_url VARCHAR(500)\<close>,
  \<^verbatim>\<open>media_type VARCHAR(50)\<close>, \<^verbatim>\<open>direction VARCHAR(10) NOT NULL\<close>; \<^verbatim>\<open>content\<close> is
  \<^verbatim>\<open>TEXT\<close>. Any parameter may be \<^verbatim>\<open>undefined\<close>, which the driver sends as \<^verbatim>\<open>NULL\<close>.
\<close>

definition message_row ::
  "uuid \<Rightarrow> timestamp \<Rightarrow> uuid option \<Rightarrow> string option \<Rightarrow> string option \<Rightarrow> string option
     \<Rightarrow> string option \<Rightarrow> string option \<Rightarrow> string option \<Rightarrow> string option \<Rightarrow> payload
     \<Rightarrow> error + message" where
  "message_row new_id t conversationId messageId phoneNumber messageType content_text mediaUrl
       media_type direction metadata =
     and_then (varchar 100 messageId) (\<lambda>message_id.
     and_then (varchar 20 phoneNumber) (\<lambda>phone.
     and_then (varchar 20 messageType) (\<lambda>mtype.
     and_then (varchar 500 mediaUrl) (\<lambda>media_url.
     and_then (varchar 50 media_type) (\<lambda>media_kind.
     and_then (varchar 10 direction) (\<lambda>dir.
     and_then (not_null phone) (\<lambda>phone_number.
     and_then (not_null mtype) (\<lambda>message_type.
     and_then (not_null dir) (\<lambda>direction_value.
       Inr \<lparr>m_id = new_id, m_conversation_id = conversationId, m_message_id = message_id,
            m_phone_number = phone_number, m_message_type = message_type,
            m_content = content_text, m_media_url = media_url, m_media_type = media_kind,
            m_direction = direction_value, m_timestamp = t, m_status = ''sent'',
            m_metadata = metadata\<rparr>)))))))))"

text \<open>
  \<^verbatim>\<open>conversation_id UUID REFERENCES conversations(id)\<close>: an inserted row must name a
  stored conversation, or none (23503 otherwise).
\<close>

definition conversation_known :: "database \<Rightarrow> uuid option \<Rightarrow> bool" where
  "conversation_known d c =
     (case c of None \<Rightarrow> True | Some i \<Rightarrow> list_ex (\<lambda>x. c_id x = i) (conversations d))"

text \<open>
  \<^verbatim>\<open>INSERT ... ON CONFLICT (message_id) DO NOTHING RETURNING *\<close>. The arbiter is the
  unique index of \<^verbatim>\<open>message_id\<close>; a \<^verbatim>\<open>NULL\<close> id conflicts with nothing. On a conflict no
  row is inserted, the foreign key is not consulted, no row is returned and
  \<^verbatim>\<open>result.rows[0]\<close> is \<^verbatim>\<open>undefined\<close>.
\<close>

definition saveMessage ::
  "env \<Rightarrow> uuid option \<Rightarrow> string option \<Rightarrow> string option \<Rightarrow> string option \<Rightarrow> string option
     \<Rightarrow> string option \<Rightarrow> string option \<Rightarrow> string option \<Rightarrow> payload \<Rightarrow> message option io" where
  "saveMessage e conversationId messageId phoneNumber messageType content_text mediaUrl
       media_type direction metadata w =
     (let t = now e w; d = db w;
          w' = record_event
                 (Store ''saveMessage'' (case phoneNumber of None \<Rightarrow> [] | Some p \<Rightarrow> p)) w in
      if \<not> arbiter_index ''messages'' [''message_id''] then
        (Inl (StoreError ''no unique or exclusion constraint matching ON CONFLICT''), w')
      else
        (case message_row (next_uuid d) t conversationId messageId phoneNumber messageType
                content_text mediaUrl media_type direction metadata of
           Inl err \<Rightarrow> (Inl err, w')
         | Inr m \<Rightarrow>
             if m_message_id m \<noteq> None
                \<and> list_ex (\<lambda>x. m_message_id x = m_message_id m) (messages d) then
               (Inr None, w')
             else if \<not> conversation_known d (m_conversation_id m) then
               (Inl (StoreError ''23503 insert violates foreign key constraint''), w')
             else
               (Inr (Some m), w'\<lparr>db := d\<lparr>messages := messages d @ [m],
                                            next_uuid := Suc (next_uuid d)\<rparr>\<rparr>)))"

text \<open>
  \<^verbatim>\<open>INSERT ... ON CONFLICT (phone_number) DO UPDATE SET ...\<close>. The arbiter is looked
  for when the statement is planned, before any value is looked at. \<open>upsert_session\<close>
  is what the statement does to the table once an arbiter index is found, for values
  within the widths of the columns.
\<close>

definition upsert_session ::
  "timestamp \<Rightarrow> string \<Rightarrow> payload option \<Rightarrow> string option \<Rightarrow> timestamp \<Rightarrow> database \<Rightarrow> database" where
  "upsert_session t phoneNumber sessionData currentStep expiresAt d =
     (if list_ex (\<lambda>s. s_phone_number s = phoneNumber) (bot_sessions d) then
        d\<lparr>bot_sessions :=
            map (\<lambda>s. if s_phone_number s = phoneNumber
                      then s\<lparr>s_session_data := sessionData, s_current_step := currentStep,
                             s_expires_at := Some expiresAt, s_updated_at := Some t\<rparr>
                      else s)
                (bot_sessions d)\<rparr>
      else
        d\<lparr>bot_sessions := bot_sessions d @
              [\<lparr>s_id = Some (next_uuid d), s_phone_number = phoneNumber,
                s_session_data = sessionData, s_current_step = currentStep,
                s_expires_at = Some expiresAt, s_created_at = Some t, s_updated_at = Some t\<rparr>],
          next_uuid := Suc (next_uuid d)\<rparr>)"

definition saveSession ::
  "env \<Rightarrow> string \<Rightarrow> payload option \<Rightarrow> string option \<Rightarrow> timestamp \<Rightarrow> unit io" where
  "saveSession e phoneNumber sessionData currentStep expiresAt w =
     (let t = now e w; w' = record_event (Store ''saveSession'' phoneNumber) w in
      if \<not> arbiter_index ''bot_sessions'' [''phone_number''] then
        (Inl (StoreError ''no unique or exclusion constraint matching ON CONFLICT''), w')
      else
        (Inr (), w'\<lparr>db := upsert_session t phoneNumber sessionData currentStep expiresAt (db w)\<rparr>))"

text \<open>
  \<^verbatim>\<open>SELECT * FROM bot_sessions WHERE phone_number = $1 AND expires_at > CURRENT_TIMESTAMP\<close>,
  of which the first row is returned. A \<^verbatim>\<open>NULL\<close> expiry satisfies no comparison.
\<close>

definition live :: "timestamp \<Rightarrow> session \<Rightarrow> bool" where
  "live t s = (case s_expires_at s of None \<Rightarrow> False | Some x \<Rightarrow> x > t)"

definition getSession :: "env \<Rightarrow> string \<Rightarrow> session option io" where
  "getSession e phoneNumber w =
     (let t = now e w; w' = record_event (Store ''getSession'' phoneNumber) w in
      (Inr (find (\<lambda>s. s_phone_number s = phoneNumber \<and> live t s) (bot_sessions (db w))), w'))"

section \<open>BotHandler\<close>

text \<open>
  The response descriptor handleStep returns: a JavaScript object of which each branch
  sets some of the fields.
\<close>

record response_descriptor =
  type :: string
  content :: "string option"
  header :: "string option"
  body :: "string option"
  buttons :: "string list option"
  url :: "string option"
  mediaType :: "string option"
  caption :: "string option"
  nextStep :: string
  sessionData :: payload

definition blank :: response_descriptor where
  "blank = \<lparr>type = [], content = None, header = None, body = None, buttons = None,
            url = None, mediaType = None, caption = None, nextStep = [], sessionData = []\<rparr>"

text \<open>
  The post to a generation endpoint (timeout 30 seconds). The HTTP client throws on a
  timeout, on a network failure and on a status outside 200..299.
\<close>

definition post_to_endpoint :: "env \<Rightarrow> service \<Rightarrow> api_request \<Rightarrow> api_result io" where
  "post_to_endpoint e svc request w =
     (let reply = upstream e (length (trace w)); w' = record_event (Generate svc request) w in
      case reply of
        Replied status result \<Rightarrow>
          if 200 \<le> status \<and> status < 300 then (Inr result, w') else (Inl UpstreamError, w')
      | TimedOut \<Rightarrow> (Inl UpstreamError, w')
      | NetworkFailure \<Rightarrow> (Inl UpstreamError, w'))"

definition fallback :: api_result where
  "fallback =
     \<lparr>imageUrl = Some ''https://via.placeholder.com/400x400?text=Error+Generating+Image'',
      videoUrl = Some ''https://sample-videos.com/zip/10/mp4/SampleVideo_1280x720_1mb.mp4'',
      response =
        Some ''Sorry, I could not process your request right now. Please try again later.''\<rparr>"

definition callCustomAPI :: "env \<Rightarrow> service \<Rightarrow> api_request \<Rightarrow> api_result io" where
  "callCustomAPI e svc request =
     try_catch (post_to_endpoint e svc request) (\<lambda>err. return fallback)"

text \<open>The waving hand of the welcome header is U+1F44B, four bytes in UTF-8.\<close>

definition welcome_header :: string where
  "welcome_header = ''Welcome! '' @ [CHR 0xF0, CHR 0x9F, CHR 0x91, CHR 0x8B]"

definition handleStep ::
  "env \<Rightarrow> session \<Rightarrow> string \<Rightarrow> conversation \<Rightarrow> response_descriptor io" where
  "handleStep e session_obj messageText conv =
     (let session_payload = (case s_session_data session_obj of None \<Rightarrow> [] | Some d \<Rightarrow> d);
          step = s_current_step session_obj in
      if step = Some ''welcome'' then
        return (blank\<lparr>type := ''interactive'', header := Some welcome_header,
                      body := Some ''What would you like to do today?'',
                      buttons := Some [''Generate Image'', ''Generate Video'', ''Get Information''],
                      nextStep := ''menu_selection'', sessionData := session_payload\<rparr>)
      else if step = Some ''menu_selection'' then
        (if includes_str messageText ''Generate Image''
            \<or> includes_str (toLowerCase messageText) ''image'' then
           return (blank\<lparr>type := ''text'',
                         content := Some ''Great! Please describe the image you want me to generate.'',
                         nextStep := ''image_input'',
                         sessionData := spread_with session_payload ''service'' (JString ''image'')\<rparr>)
         else if includes_str messageText ''Generate Video''
            \<or> includes_str (toLowerCase messageText) ''video'' then
           return (blank\<lparr>type := ''text'',
                         content := Some ''Awesome! Please describe the video you want me to create.'',
                         nextStep := ''video_input'',
                         sessionData := spread_with session_payload ''service'' (JString ''video'')\<rparr>)
         else if includes_str messageText ''Get Information''
            \<or> includes_str (toLowerCase messageText) ''information'' then
           return (blank\<lparr>type := ''text'',
                         content := Some ''What information would you like me to help you find?'',
                         nextStep := ''info_input'',
                         sessionData := spread_with session_payload ''service'' (JString ''info'')\<rparr>)
         else
           return (blank\<lparr>type := ''text'',
                         content := Some (''Please select one of the options: Generate Image, ''
                                          @ ''Generate Video, or Get Information.''),
                         nextStep := ''menu_selection'', sessionData := session_payload\<rparr>))
      else if step = Some ''image_input'' then
        await (callCustomAPI e Image
                 \<lparr>prompt = Some messageText, query = None, user = c_phone_number conv\<rparr>)
          (\<lambda>imageResult.
             return (blank\<lparr>type := ''media'', url := imageUrl imageResult,
                           mediaType := Some ''image'',
                           caption := Some (''Here's your generated image based on: ''
                                            @ [CHR 0x22] @ messageText @ [CHR 0x22]),
                           nextStep := ''welcome'', sessionData := []\<rparr>))
      else if step = Some ''video_input'' then
        await (callCustomAPI e Video
                 \<lparr>prompt = Some messageText, query = None, user = c_phone_number conv\<rparr>)
          (\<lambda>videoResult.
             return (blank\<lparr>type := ''media'', url := videoUrl videoResult,
                           mediaType := Some ''video'',
                           caption := Some (''Here's your generated video: ''
                                            @ [CHR 0x22] @ messageText @ [CHR 0x22]),
                           nextStep := ''welcome'', sessionData := []\<rparr>))
      else if step = Some ''info_input'' then
        await (callCustomAPI e Info
                 \<lparr>prompt = None, query = Some messageText, user = c_phone_number conv\<rparr>)
          (\<lambda>infoResult.
             return (blank\<lparr>type := ''text'', content := response infoResult,
                           nextStep := ''welcome'', sessionData := []\<rparr>))
      else
        return (blank\<lparr>type := ''text'',
                      content := Some (''Hi! Type '' @ [CHR 0x22] @ ''start'' @ [CHR 0x22]
                                       @ '' to begin or '' @ [CHR 0x22] @ ''menu''
                                       @ [CHR 0x22] @ '' to see options.''),
                      nextStep := ''welcome'', sessionData := []\<rparr>))"

text \<open>
  The session processMessage works on: the row getSession returned or, when there is
  none, a fresh object that expires 30 minutes from now.
\<close>

definition session_or_default :: "env \<Rightarrow> string \<Rightarrow> session option \<Rightarrow> session io" where
  "session_or_default e phoneNumber row =
     (case row of
        Some s \<Rightarrow> return s
      | None \<Rightarrow>
          await (Date_now e) (\<lambda>t.
            return \<lparr>s_id = None, s_phone_number = phoneNumber, s_session_data = Some [],
                    s_current_step = Some ''welcome'',
                    s_expires_at = Some (t + 30 * 60 * 1000),
                    s_created_at = None, s_updated_at = None\<rparr>))"

definition send_response :: "env \<Rightarrow> string \<Rightarrow> response_descriptor \<Rightarrow> unit io" where
  "send_response e phoneNumber r =
     (if type r = ''text'' then sendMessage e phoneNumber (content r)
      else if type r = ''media'' then sendMedia e phoneNumber (url r) (mediaType r) (caption r)
      else if type r = ''interactive'' then
        sendInteractiveMessage e phoneNumber (header r) (body r) (buttons r)
      else return ())"

definition apology :: string where
  "apology = ''Sorry, I encountered an error. Please try again.''"

definition processMessage ::
  "env \<Rightarrow> string \<Rightarrow> string \<Rightarrow> string option \<Rightarrow> string option \<Rightarrow> unit io" where
  "processMessage e phoneNumber messageText messageId userName =
     try_catch
       (await (getOrCreateConversation e phoneNumber userName) (\<lambda>conv.
        await (saveMessage e (Some (c_id conv)) messageId (Some phoneNumber) (Some ''text'')
                 (Some messageText) None None (Some ''inbound'') []) (\<lambda>saved_inbound.
        await (getSession e phoneNumber) (\<lambda>row.
        await (session_or_default e phoneNumber row) (\<lambda>session_obj.
        await (handleStep e session_obj messageText conv) (\<lambda>r.
        await (send_response e phoneNumber r) (\<lambda>sent.
        await (Date_now e) (\<lambda>t_out.
        await (saveMessage e (Some (c_id conv)) (Some (''out_'' @ number_to_string t_out))
                 (Some phoneNumber) (Some (type r)) (js_or (content r) (body r)) (url r)
                 (mediaType r) (Some ''outbound'') []) (\<lambda>saved_outbound.
        await (Date_now e) (\<lambda>t_exp.
          saveSession e phoneNumber (Some (sessionData r))
            (js_or (Some (nextStep r)) (s_current_step session_obj))
            (t_exp + 30 * 60 * 1000)))))))))))
       (\<lambda>err. sendMessage e phoneNumber (Some apology))"

section \<open>Webhook verification (GET /webhook)\<close>

text \<open>
  Express hands the handler the parsed query string: a parameter is absent, a string, an
  array (the parameter was repeated) or a nested object. The handlers compare parameters
  with \<^verbatim>\<open>===\<close>, which only a string can satisfy against a string.
\<close>

datatype query_value =
    QString string
  | QArray "query_value list"
  | QObject "(string \<times> query_value) list"

record query =
  hub_mode :: "query_value option"
  hub_verify_token :: "query_value option"
  hub_challenge :: "query_value option"

text \<open>What the handler sends: the status and the value given to \<^verbatim>\<open>send\<close>.\<close>

datatype http_response = Response nat "query_value option"

text \<open>
  \<^verbatim>\<open>a === b\<close> where \<^verbatim>\<open>b\<close> is a string or \<^verbatim>\<open>undefined\<close> (an environment variable):
  two absent values are equal, two strings are compared by content, arrays and objects
  are never equal to a string or to \<^verbatim>\<open>undefined\<close>.
\<close>

fun strict_eq :: "query_value option \<Rightarrow> string option \<Rightarrow> bool" where
  "strict_eq None None = True"
| "strict_eq (Some (QString s)) (Some t) = (s = t)"
| "strict_eq _ _ = False"

text \<open>JavaScript truthiness of a query parameter: absent and the empty string are falsy.\<close>

fun truthy_param :: "query_value option \<Rightarrow> bool" where
  "truthy_param None = False"
| "truthy_param (Some (QString s)) = (s \<noteq> [])"
| "truthy_param (Some _) = True"

text \<open>
  The handler of the bot server. \<^verbatim>\<open>WEBHOOK_VERIFY_TOKEN\<close> is read from the environment
  at start-up and is \<^verbatim>\<open>undefined\<close> when the variable is not set.
\<close>

definition get_webhook :: "string option \<Rightarrow> query \<Rightarrow> http_response" where
  "get_webhook WEBHOOK_VERIFY_TOKEN q =
     (let mode = hub_mode q; token = hub_verify_token q; challenge = hub_challenge q in
      if strict_eq mode (Some ''subscribe'') \<and> strict_eq token WEBHOOK_VERIFY_TOKEN
      then Response 200 challenge
      else Response 403 (Some (QString ''Forbidden'')))"

text \<open>
  The handler of the minimal server. The token falls back to a fixed default when the
  variable is unset or empty, and the whole check sits under \<^verbatim>\<open>if (mode && token)\<close>
  with no \<^verbatim>\<open>else\<close>: when either parameter is falsy nothing is sent (\<open>None\<close>).
  \<^verbatim>\<open>sendStatus(403)\<close> sends the status text as the body.
\<close>

definition verifyToken :: "string option \<Rightarrow> string" where
  "verifyToken env_token =
     (case env_token of
        None \<Rightarrow> ''your_verify_token_here''
      | Some t \<Rightarrow> if t = [] then ''your_verify_token_here'' else t)"

definition get_webhook_minimal :: "string option \<Rightarrow> query \<Rightarrow> http_response option" where
  "get_webhook_minimal env_token q =
     (let mode = hub_mode q; token = hub_verify_token q; challenge = hub_challenge q in
      if truthy_param mode \<and> truthy_param token then
        (if strict_eq mode (Some ''subscribe'') \<and> strict_eq token (Some (verifyToken env_token))
         then Some (Response 200 challenge)
         else Some (Response 403 (Some (QString ''Forbidden''))))
      else None)"

section \<open>Webhook delivery (POST /webhook)\<close>

record wa_message =
  wm_from :: string
  wm_id :: "string option"
  wm_text_body :: "string option"

record change =
  ch_field :: string
  ch_messages :: "wa_message list option"
  ch_contact_name :: "string option"

record entry =
  e_changes :: "change list option"

record webhook_body =
  wb_object :: "string option"
  wb_entry :: "entry list option"

text \<open>
  The callback of \<^verbatim>\<open>messages.forEach\<close>, which runs processMessage only under
  \<^verbatim>\<open>if (messageText)\<close>. Nothing awaits the promise it returns: when processMessage
  rejects, the rejection stays unhandled. The pipelines of one delivery are run here one
  after the other, in the order of the payload.
\<close>

definition on_message :: "env \<Rightarrow> change \<Rightarrow> wa_message \<Rightarrow> world \<Rightarrow> world" where
  "on_message e chg msg w =
     (let phoneNumber = wm_from msg; messageId = wm_id msg; messageText = wm_text_body msg;
          userName = ch_contact_name chg in
      case messageText of
        None \<Rightarrow> w
      | Some str \<Rightarrow>
          if str = [] then w
          else
            (case processMessage e phoneNumber str messageId userName w of
               (Inr u, w') \<Rightarrow> w'
             | (Inl err, w') \<Rightarrow> record_event (Unhandled err) w'))"

definition on_change :: "env \<Rightarrow> change \<Rightarrow> world \<Rightarrow> world" where
  "on_change e chg w =
     (if ch_field chg = ''messages'' then
        (case ch_messages chg of
           None \<Rightarrow> w
         | Some msgs \<Rightarrow> fold (on_message e chg) msgs w)
      else w)"

definition on_entry :: "env \<Rightarrow> entry \<Rightarrow> world \<Rightarrow> world" where
  "on_entry e ent w =
     (case e_changes ent of None \<Rightarrow> w | Some chgs \<Rightarrow> fold (on_change e) chgs w)"

definition post_webhook :: "env \<Rightarrow> webhook_body \<Rightarrow> world \<Rightarrow> http_response \<times> world" where
  "post_webhook e b w =
     (Response 200 (Some (QString ''OK'')),
      if wb_object b = Some ''whatsapp_business_account'' then
        (case wb_entry b of None \<Rightarrow> w | Some ents \<Rightarrow> fold (on_entry e) ents w)
      else w)"

section \<open>Notions of the specification\<close>

text \<open>A literal substring, and a substring up to the case of ASCII letters.\<close>

definition contains :: "string \<Rightarrow> string \<Rightarrow> bool" where
  "contains str s \<longleftrightarrow> (\<exists>pre post. str = pre @ s @ post)"

definition contains_ignoring_case :: "string \<Rightarrow> string \<Rightarrow> bool" where
  "contains_ignoring_case str s \<longleftrightarrow>
     (\<exists>pre mid post. str = pre @ mid @ post \<and> toLowerCase mid = toLowerCase s)"

text \<open>The payload a session carries; a session without one carries the empty payload.\<close>

definition payload_of :: "session \<Rightarrow> payload" where
  "payload_of s = (case s_session_data s of None \<Rightarrow> [] | Some d \<Rightarrow> d)"

definition recognized_steps :: "string list" where
  "recognized_steps =
     [''welcome'', ''menu_selection'', ''image_input'', ''video_input'', ''info_input'']"

definition unrecognized :: "string option \<Rightarrow> bool" where
  "unrecognized step = (case step of None \<Rightarrow> True | Some n \<Rightarrow> n \<notin> set recognized_steps)"

text \<open>The upstream call failed: a timeout, a network failure or a non-success status.\<close>

fun failed :: "upstream_reply \<Rightarrow> bool" where
  "failed TimedOut = True"
| "failed NetworkFailure = True"
| "failed (Replied status result) = (status < 200 \<or> 300 \<le> status)"

text \<open>The welcome menu as it is posted to the platform.\<close>

definition welcome_menu :: "string \<Rightarrow> outbound" where
  "welcome_menu p =
     InteractiveMessage p (Some welcome_header) (Some ''What would you like to do today?'')
       [(''btn_0'', ''Generate Image''), (''btn_1'', ''Generate Video''),
        (''btn_2'', ''Get Information'')]"


definition message_id_unique :: "database \<Rightarrow> bool" where
  "message_id_unique d =
     distinct (concat (map (\<lambda>m. case m_message_id m of None \<Rightarrow> [] | Some i \<Rightarrow> [i])
                           (messages d)))"



definition outbound_rows :: "database \<Rightarrow> message list" where
  "outbound_rows d = filter (\<lambda>m. m_direction m = ''outbound'') (messages d)"

text \<open>The posts the platform accepted, in order.\<close>

fun accepted_sends :: "event list \<Rightarrow> outbound list" where
  "accepted_sends [] = []"
| "accepted_sends (Send msg True # evs) = msg # accepted_sends evs"
| "accepted_sends (ev # evs) = accepted_sends evs"

text \<open>A delivery without the messages that carry no text.\<close>

definition drop_textless_change :: "change \<Rightarrow> change" where
  "drop_textless_change chg =
     chg\<lparr>ch_messages := map_option (filter (\<lambda>m. truthy (wm_text_body m))) (ch_messages chg)\<rparr>"

definition drop_textless_entry :: "entry \<Rightarrow> entry" where
  "drop_textless_entry ent =
     ent\<lparr>e_changes := map_option (map drop_textless_change) (e_changes ent)\<rparr>"

definition drop_textless :: "webhook_body \<Rightarrow> webhook_body" where
  "drop_textless b = b\<lparr>wb_entry := map_option (map drop_textless_entry) (wb_entry b)\<rparr>"

section \<open>Sample inputs\<close>

text \<open>
  An environment in which everything works and the whole run falls into one
  millisecond, one whose generation endpoints answer 503, and one whose messaging
  platform refuses every post.
\<close>

definition env_up :: env where
  "env_up =
     \<lparr>clock = (\<lambda>k. 1762142400000), platform = (\<lambda>k. True),
      upstream = (\<lambda>k. Replied 200 \<lparr>imageUrl = Some ''https://img.example/1.png'',
                                     videoUrl = None, response = None\<rparr>)\<rparr>"

definition env_upstream_down :: env where
  "env_upstream_down =
     env_up\<lparr>upstream := (\<lambda>k. Replied 503 \<lparr>imageUrl = None, videoUrl = None,
                                            response = None\<rparr>)\<rparr>"

definition env_platform_down :: env where
  "env_platform_down = env_up\<lparr>platform := (\<lambda>k. False)\<rparr>"

definition empty_world :: world where
  "empty_world =
     \<lparr>db = \<lparr>conversations = [], messages = [], bot_sessions = [], next_uuid = 0\<rparr>,
      trace = []\<rparr>"

definition some_conversation :: conversation where
  "some_conversation =
     \<lparr>c_id = 7, c_phone_number = ''15550001111'', c_user_name = Some ''Ann'',
      c_created_at = 1762142000000, c_updated_at = 1762142000000, c_metadata = None\<rparr>"

definition session_at :: "string option \<Rightarrow> session" where
  "session_at step =
     \<lparr>s_id = Some 3, s_phone_number = ''15550001111'',
      s_session_data = Some [(''service'', JString ''video'')], s_current_step = step,
      s_expires_at = Some 1762144000000, s_created_at = Some 1762142000000,
      s_updated_at = Some 1762142000000\<rparr>"

text \<open>A store whose only session expires at the very millisecond the clock shows.\<close>

definition expired_world :: world where
  "expired_world =
     \<lparr>db = \<lparr>conversations = [], messages = [],
             bot_sessions = [(session_at (Some ''menu_selection''))
                               \<lparr>s_expires_at := Some 1762142400000\<rparr>],
             next_uuid = 4\<rparr>,
      trace = []\<rparr>"

definition text_from :: "string \<Rightarrow> string \<Rightarrow> string option \<Rightarrow> wa_message" where
  "text_from p mid str = \<lparr>wm_from = p, wm_id = Some mid, wm_text_body = str\<rparr>"

definition messages_change :: "wa_message list \<Rightarrow> change" where
  "messages_change msgs =
     \<lparr>ch_field = ''messages'', ch_messages = Some msgs, ch_contact_name = None\<rparr>"

definition delivery_of :: "wa_message list \<Rightarrow> webhook_body" where
  "delivery_of msgs =
     \<lparr>wb_object = Some ''whatsapp_business_account'',
      wb_entry = Some [\<lparr>e_changes = Some [messages_change msgs]\<rparr>]\<rparr>"

text \<open>
  A store that holds the sample conversation, an id of 101 characters, and an inbound
  save of the text "hi" for that conversation under a given id.
\<close>

definition known_world :: world where
  "known_world =
     \<lparr>db = \<lparr>conversations = [some_conversation], messages = [], bot_sessions = [],
             next_uuid = 8\<rparr>,
      trace = []\<rparr>"

definition long_id :: string where
  "long_id =
     ''0123456789'' @ ''0123456789'' @ ''0123456789'' @ ''0123456789'' @ ''0123456789''
     @ ''0123456789'' @ ''0123456789'' @ ''0123456789'' @ ''0123456789'' @ ''0123456789''
     @ ''X''"

definition save_hi :: "string \<Rightarrow> world \<Rightarrow> (error + message option) \<times> world" where
  "save_hi mid w =
     saveMessage env_up (Some 7) (Some mid) (Some ''15550001111'') (Some ''text'') (Some ''hi'')
       None None (Some ''inbound'') [] w"

definition first_save :: "(error + message option) \<times> world" where
  "first_save = save_hi ''wamid.A1'' known_world"

definition second_save :: "(error + message option) \<times> world" where
  "second_save =
     saveMessage env_up (Some 7) (Some ''wamid.A1'') (Some ''15550001111'') (Some ''text'')
       (Some ''hi again'') None None (Some ''inbound'') [] (snd first_save)"

section \<open>Basic facts\<close>

lemma return_apply [simp]: "return x w = (Inr x, w)"
  by (simp add: return_def)

lemma throw_apply [simp]: "throw err w = (Inl err, w)"
  by (simp add: throw_def)

lemma await_Inr [simp]: "m w = (Inr x, w') \<Longrightarrow> await m f w = f x w'"
  by (simp add: await_def)

lemma await_Inl [simp]: "m w = (Inl err, w') \<Longrightarrow> await m f w = (Inl err, w')"
  by (simp add: await_def)

lemma try_catch_Inr [simp]: "m w = (Inr x, w') \<Longrightarrow> try_catch m h w = (Inr x, w')"
  by (simp add: try_catch_def)

lemma try_catch_Inl [simp]: "m w = (Inl err, w') \<Longrightarrow> try_catch m h w = h err w'"
  by (simp add: try_catch_def)

subsection \<open>Substrings\<close>

lemma startsWith_iff: "startsWith str s \<longleftrightarrow> (\<exists>post. str = s @ post)"
  by (induction str s rule: startsWith.induct) auto

lemma includes_str_iff: "includes_str str s \<longleftrightarrow> contains str s"
proof (induction str)
  case Nil
  then show ?case by (auto simp: contains_def)
next
  case (Cons t ts)
  have "contains (t # ts) s \<longleftrightarrow> (\<exists>post. t # ts = s @ post) \<or> contains ts s"
  proof
    assume "contains (t # ts) s"
    then obtain pre post where eq: "t # ts = pre @ s @ post"
      by (auto simp: contains_def)
    show "(\<exists>post. t # ts = s @ post) \<or> contains ts s"
    proof (cases pre)
      case Nil
      with eq show ?thesis by auto
    next
      case (Cons q qs)
      with eq have "ts = qs @ s @ post" by simp
      then show ?thesis by (auto simp: contains_def)
    qed
  next
    assume "(\<exists>post. t # ts = s @ post) \<or> contains ts s"
    then show "contains (t # ts) s"
    proof
      assume "\<exists>post. t # ts = s @ post"
      then obtain post where "t # ts = [] @ s @ post" by auto
      then show ?thesis unfolding contains_def by blast
    next
      assume "contains ts s"
      then obtain pre post where "ts = pre @ s @ post" by (auto simp: contains_def)
      then have "t # ts = (t # pre) @ s @ post" by simp
      then show ?thesis unfolding contains_def by blast
    qed
  qed
  with Cons show ?case by (simp add: startsWith_iff)
qed

lemma contains_toLowerCase:
  "contains (toLowerCase str) (toLowerCase s) \<longleftrightarrow> contains_ignoring_case str s"
proof
  assume "contains (toLowerCase str) (toLowerCase s)"
  then obtain pre post
    where "pre @ (map toLowerCase_char s @ post) = map toLowerCase_char str"
    by (auto simp: contains_def toLowerCase_def)
  then obtain us vs where str: "str = us @ vs"
    and vs: "map toLowerCase_char s @ post = map toLowerCase_char vs"
    unfolding append_eq_map_conv by blast
  from vs obtain mid ws where "vs = mid @ ws"
    and "map toLowerCase_char s = map toLowerCase_char mid"
    unfolding append_eq_map_conv by blast
  with str have "str = us @ mid @ ws \<and> toLowerCase mid = toLowerCase s"
    by (simp add: toLowerCase_def)
  then show "contains_ignoring_case str s"
    unfolding contains_ignoring_case_def by blast
next
  assume "contains_ignoring_case str s"
  then obtain pre mid post
    where "str = pre @ mid @ post" and "toLowerCase mid = toLowerCase s"
    by (auto simp: contains_ignoring_case_def)
  then have "toLowerCase str = toLowerCase pre @ toLowerCase s @ toLowerCase post"
    by (simp add: toLowerCase_def)
  then show "contains (toLowerCase str) (toLowerCase s)"
    unfolding contains_def by blast
qed

lemma keywords_lower:
  "toLowerCase ''image'' = ''image''"
  "toLowerCase ''video'' = ''video''"
  "toLowerCase ''information'' = ''information''"
  by (simp_all add: toLowerCase_def toLowerCase_char_def)

lemma contains_lower_iff:
  "contains (toLowerCase str) ''image'' \<longleftrightarrow> contains_ignoring_case str ''image''"
  "contains (toLowerCase str) ''video'' \<longleftrightarrow> contains_ignoring_case str ''video''"
  "contains (toLowerCase str) ''information'' \<longleftrightarrow> contains_ignoring_case str ''information''"
  using contains_toLowerCase [of str "''image''"] contains_toLowerCase [of str "''video''"]
    contains_toLowerCase [of str "''information''"]
  by (simp_all add: keywords_lower)

text \<open>How a concrete text is searched: back to the two functions of the code.\<close>

lemmas search_eval =
  includes_str_iff [symmetric] contains_lower_iff [symmetric] toLowerCase_def toLowerCase_char_def

lemma map_of_spread_with: "map_of (spread_with pl k v) k = Some v"
  by (induction pl) auto

subsection \<open>Decimal rendering\<close>

lemma digit_inj:
  assumes "a < 10" and "b < 10" and "''0123456789'' ! a = ''0123456789'' ! b"
  shows "a = b"
proof -
  have "distinct ''0123456789''" and "length ''0123456789'' = 10" by simp_all
  with assms show ?thesis by (metis nth_eq_iff_index_eq)
qed

lemma digits_not_Nil: "digits n \<noteq> []"
  by (subst digits.simps) simp

lemma digits_inj: "digits m = digits n \<Longrightarrow> m = n"
proof (induction m arbitrary: n rule: digits.induct)
  case (1 m)
  show ?case
  proof (cases "m < 10")
    case True
    then have m: "digits m = [''0123456789'' ! m]" by (subst digits.simps) simp
    show ?thesis
    proof (cases "n < 10")
      case True
      then have "digits n = [''0123456789'' ! n]" by (subst digits.simps) simp
      with m "1.prems" have "''0123456789'' ! m = ''0123456789'' ! n" by simp
      with \<open>m < 10\<close> True show ?thesis by (rule digit_inj)
    next
      case False
      then have "digits n = digits (n div 10) @ [''0123456789'' ! (n mod 10)]"
        by (subst digits.simps) simp
      with m "1.prems" digits_not_Nil [of "n div 10"] show ?thesis by simp
    qed
  next
    case False
    then have m: "digits m = digits (m div 10) @ [''0123456789'' ! (m mod 10)]"
      by (subst digits.simps) simp
    show ?thesis
    proof (cases "n < 10")
      case True
      then have "digits n = [''0123456789'' ! n]" by (subst digits.simps) simp
      with m "1.prems" digits_not_Nil [of "m div 10"] show ?thesis by simp
    next
      case n: False
      then have "digits n = digits (n div 10) @ [''0123456789'' ! (n mod 10)]"
        by (subst digits.simps) simp
      with m "1.prems" have eq: "digits (m div 10) = digits (n div 10)"
        and d: "''0123456789'' ! (m mod 10) = ''0123456789'' ! (n mod 10)" by simp_all
      from "1.IH" [OF False eq] have "m div 10 = n div 10" .
      moreover from d have "m mod 10 = n mod 10" by (intro digit_inj) simp_all
      ultimately show ?thesis by (metis div_mult_mod_eq)
    qed
  qed
qed

text \<open>
  Outbound ids synthesized at different readings of the clock differ: they collide only
  within one millisecond.
\<close>

lemma out_id_inj:
  "0 \<le> s \<Longrightarrow> 0 \<le> t \<Longrightarrow>
     ''out_'' @ number_to_string s = ''out_'' @ number_to_string t \<Longrightarrow> s = t"
  using digits_inj [of "nat s" "nat t"] by (simp add: number_to_string_def)

subsection \<open>The store\<close>

lemma arbiter_messages [simp]: "arbiter_index ''messages'' [''message_id'']"
  by (simp add: arbiter_index_def initializeDatabase_def)

lemma arbiter_bot_sessions [simp]: "\<not> arbiter_index ''bot_sessions'' [''phone_number'']"
  by (simp add: arbiter_index_def initializeDatabase_def)









text \<open>The \<^verbatim>\<open>UNIQUE\<close> constraint holds of the empty table and saveMessage keeps it.\<close>

lemma saveMessage_keeps_unique:
  "message_id_unique (db w) \<Longrightarrow>
     message_id_unique (db (snd (saveMessage e c mid p ty ct mu mt dir md w)))"
  by (auto simp: saveMessage_def Let_def record_event_def message_id_unique_def list_ex_iff
           split: sum.splits option.splits)



lemma store_refuses_saveSession:
  "saveSession e p d st x w =
     (Inl (StoreError ''no unique or exclusion constraint matching ON CONFLICT''),
      record_event (Store ''saveSession'' p) w)"
  by (simp add: saveSession_def Let_def)

text \<open>
  What the \<^verbatim>\<open>DO UPDATE\<close> statement would do with a unique index on the user: the
  user's row holds the arguments afterwards, and the user has as many rows as before,
  or one when there was none.
\<close>

lemma upsert_session_stores:
  "\<exists>s \<in> set (bot_sessions (upsert_session t p sd st x d)).
      s_phone_number s = p \<and> s_session_data s = sd \<and> s_current_step s = st
      \<and> s_expires_at s = Some x"
proof (cases "list_ex (\<lambda>s. s_phone_number s = p) (bot_sessions d)")
  case True
  then obtain s where s: "s \<in> set (bot_sessions d)" "s_phone_number s = p"
    by (auto simp: list_ex_iff)
  let ?s = "s\<lparr>s_session_data := sd, s_current_step := st, s_expires_at := Some x,
             s_updated_at := Some t\<rparr>"
  from s True have "?s \<in> set (bot_sessions (upsert_session t p sd st x d))"
    by (force simp: upsert_session_def)
  moreover from s have "s_phone_number ?s = p \<and> s_session_data ?s = sd
      \<and> s_current_step ?s = st \<and> s_expires_at ?s = Some x" by simp
  ultimately show ?thesis by blast
next
  case False
  then show ?thesis by (simp add: upsert_session_def)
qed

lemma upsert_session_count:
  "length (filter (\<lambda>s. s_phone_number s = p) (bot_sessions (upsert_session t p sd st x d)))
     = max 1 (length (filter (\<lambda>s. s_phone_number s = p) (bot_sessions d)))"
proof (cases "list_ex (\<lambda>s. s_phone_number s = p) (bot_sessions d)")
  case True
  have keep: "length (filter (\<lambda>s. s_phone_number s = p)
          (map (\<lambda>s. if s_phone_number s = p
                    then s\<lparr>s_session_data := sd, s_current_step := st,
                           s_expires_at := Some x, s_updated_at := Some t\<rparr>
                    else s) rows))
        = length (filter (\<lambda>s. s_phone_number s = p) rows)" for rows
    by (induction rows) auto
  from True have "filter (\<lambda>s. s_phone_number s = p) (bot_sessions d) \<noteq> []"
    by (auto simp: list_ex_iff filter_empty_conv)
  then have "1 \<le> length (filter (\<lambda>s. s_phone_number s = p) (bot_sessions d))"
    by (cases "filter (\<lambda>s. s_phone_number s = p) (bot_sessions d)") simp_all
  with True keep [of "bot_sessions d"] show ?thesis
    by (simp add: upsert_session_def del: filter_map)
next
  case False
  then have "filter (\<lambda>s. s_phone_number s = p) (bot_sessions d) = []"
    by (auto simp: list_ex_iff filter_empty_conv)
  with False show ?thesis by (simp add: upsert_session_def)
qed

lemma getSession_apply:
  "getSession e p w =
     (Inr (find (\<lambda>s. s_phone_number s = p \<and> live (now e w) s) (bot_sessions (db w))),
      record_event (Store ''getSession'' p) w)"
  by (simp add: getSession_def Let_def)

subsection \<open>The generation gateway\<close>

lemma post_to_endpoint_failed:
  "failed (upstream e (length (trace w))) \<Longrightarrow>
     post_to_endpoint e svc request w = (Inl UpstreamError, record_event (Generate svc request) w)"
  by (cases "upstream e (length (trace w))") (auto simp: post_to_endpoint_def Let_def)

lemma callCustomAPI_failed:
  "failed (upstream e (length (trace w))) \<Longrightarrow>
     callCustomAPI e svc request w = (Inr fallback, record_event (Generate svc request) w)"
  by (simp add: callCustomAPI_def post_to_endpoint_failed)

text \<open>callCustomAPI returns normally whatever the endpoint does.\<close>

lemma callCustomAPI_total:
  "\<exists>result. callCustomAPI e svc request w = (Inr result, record_event (Generate svc request) w)"
  by (cases "upstream e (length (trace w))")
     (auto simp: callCustomAPI_def post_to_endpoint_def try_catch_def Let_def)

subsection \<open>The pipeline on an absent or expired session\<close>

lemma sendInteractive_welcome:
  "sendInteractiveMessage e p (Some welcome_header) (Some ''What would you like to do today?'')
     (Some [''Generate Image'', ''Generate Video'', ''Get Information'']) w =
   post_to_platform e (welcome_menu p) w"
  by (simp add: sendInteractiveMessage_def welcome_menu_def number_to_string_def digits.simps
        enumerate_eq_zip upt_rec)


text \<open>
  Since the store refuses every saveSession, the \<^verbatim>\<open>try\<close> block of processMessage
  never completes: each run ends in the \<^verbatim>\<open>catch\<close> block, with the apology send.
\<close>

lemma await_fails:
  assumes "\<And>x v. \<exists>err v'. f x v = (Inl err, v')"
  shows "\<exists>err v'. await m f w = (Inl err, v')"
proof (cases "m w")
  case (Pair r v)
  show ?thesis
  proof (cases r)
    case (Inl err)
    with Pair show ?thesis by (simp add: await_def)
  next
    case (Inr x)
    with Pair assms [of x v] show ?thesis by (simp add: await_def)
  qed
qed

lemma processMessage_always_apologizes:
  "\<exists>v. processMessage e p str mid name w = sendMessage e p (Some apology) v"
proof -
  have "\<exists>err v. await (getOrCreateConversation e p name) (\<lambda>conv.
        await (saveMessage e (Some (c_id conv)) mid (Some p) (Some ''text'') (Some str)
                 None None (Some ''inbound'') []) (\<lambda>saved_inbound.
        await (getSession e p) (\<lambda>row.
        await (session_or_default e p row) (\<lambda>session_obj.
        await (handleStep e session_obj str conv) (\<lambda>r.
        await (send_response e p r) (\<lambda>sent.
        await (Date_now e) (\<lambda>t_out.
        await (saveMessage e (Some (c_id conv)) (Some (''out_'' @ number_to_string t_out))
                 (Some p) (Some (type r)) (js_or (content r) (body r)) (url r) (mediaType r)
                 (Some ''outbound'') []) (\<lambda>saved_outbound.
        await (Date_now e) (\<lambda>t_exp.
          saveSession e p (Some (sessionData r))
            (js_or (Some (nextStep r)) (s_current_step session_obj))
            (t_exp + 30 * 60 * 1000)))))))))) w = (Inl err, v)"
    by (intro await_fails) (simp add: store_refuses_saveSession)
  then show ?thesis
    by (auto simp: processMessage_def try_catch_def)
qed

text \<open>The only error that leaves processMessage is the failure of the apology send.\<close>

lemma processMessage_outcome:
  "fst (processMessage e p str mid name w) = Inr ()
   \<or> fst (processMessage e p str mid name w) = Inl DeliveryError"
proof -
  obtain v where "processMessage e p str mid name w = sendMessage e p (Some apology) v"
    using processMessage_always_apologizes by blast
  then show ?thesis
    by (simp add: sendMessage_def post_to_platform_def Let_def)
qed

subsection \<open>Webhook deliveries\<close>

lemma on_message_textless: "\<not> truthy (wm_text_body msg) \<Longrightarrow> on_message e chg msg w = w"
  by (simp add: on_message_def truthy_def Let_def split: option.splits)

lemma on_message_chg: "on_message e (chg\<lparr>ch_messages := ms\<rparr>) = on_message e chg"
  by (rule ext, rule ext) (simp add: on_message_def Let_def)

lemma fold_on_message_filter:
  "fold (on_message e chg) (filter (\<lambda>m. truthy (wm_text_body m)) msgs) w
     = fold (on_message e chg) msgs w"
  by (induction msgs arbitrary: w) (simp_all add: on_message_textless)

lemma on_change_drop: "on_change e (drop_textless_change chg) w = on_change e chg w"
  by (cases "ch_messages chg")
     (simp_all add: on_change_def drop_textless_change_def on_message_chg fold_on_message_filter)

lemma fold_on_change_drop:
  "fold (on_change e) (map drop_textless_change chgs) w = fold (on_change e) chgs w"
  by (induction chgs arbitrary: w) (simp_all add: on_change_drop)

lemma on_entry_drop: "on_entry e (drop_textless_entry ent) w = on_entry e ent w"
  by (cases "e_changes ent")
     (simp_all add: on_entry_def drop_textless_entry_def fold_on_change_drop)

lemma fold_on_entry_drop:
  "fold (on_entry e) (map drop_textless_entry ents) w = fold (on_entry e) ents w"
  by (induction ents arbitrary: w) (simp_all add: on_entry_drop)

subsection \<open>The verification handlers\<close>

lemma strict_eq_Some [simp]: "strict_eq v (Some t) \<longleftrightarrow> v = Some (QString t)"
  by (cases "(v, Some t)" rule: strict_eq.cases) auto

lemma strict_eq_None [simp]: "strict_eq v None \<longleftrightarrow> v = None"
  by (cases "(v, None :: string option)" rule: strict_eq.cases) auto

text \<open>
  The bot server answers every request: 200 with the challenge exactly when the mode is
  the string "subscribe" and the supplied token equals the configured one, 403 in every
  other case. The minimal server answers the same way, against its own token, whenever
  the mode and the token are both present and non-empty, and sends nothing otherwise.
\<close>

lemma get_webhook_verification:
  "(get_webhook cfg q = Response 200 (hub_challenge q)
      \<longleftrightarrow> hub_mode q = Some (QString ''subscribe'') \<and> strict_eq (hub_verify_token q) cfg)
   \<and> (\<not> (hub_mode q = Some (QString ''subscribe'') \<and> strict_eq (hub_verify_token q) cfg)
      \<longrightarrow> get_webhook cfg q = Response 403 (Some (QString ''Forbidden'')))
   \<and> (truthy_param (hub_mode q) \<and> truthy_param (hub_verify_token q) \<longrightarrow>
        (get_webhook_minimal env_token q = Some (Response 200 (hub_challenge q))
           \<longleftrightarrow> hub_mode q = Some (QString ''subscribe'')
               \<and> hub_verify_token q = Some (QString (verifyToken env_token)))
        \<and> (\<not> (hub_mode q = Some (QString ''subscribe'')
               \<and> hub_verify_token q = Some (QString (verifyToken env_token)))
           \<longrightarrow> get_webhook_minimal env_token q
                 = Some (Response 403 (Some (QString ''Forbidden'')))))
   \<and> (\<not> (truthy_param (hub_mode q) \<and> truthy_param (hub_verify_token q)) \<longrightarrow>
        get_webhook_minimal env_token q = None)"
  by (auto simp: get_webhook_def get_webhook_minimal_def Let_def)

subsection \<open>Running the sample inputs\<close>

lemmas run_defs =
  post_webhook_def on_entry_def on_change_def on_message_def processMessage_def
  getOrCreateConversation_def conversation_row_def saveMessage_def message_row_def
  varchar_def not_null_def and_then_def characters_def continuation_def conversation_known_def
  store_refuses_saveSession getSession_apply
  session_or_default_def handleStep_def send_response_def sendInteractive_welcome
  sendMessage_def post_to_platform_def try_catch_def await_def Date_now_def now_def
  record_event_def js_or_def truthy_def live_def blank_def number_to_string_def digits.simps
  Let_def

lemmas sample_defs =
  env_up_def env_upstream_down_def env_platform_down_def empty_world_def expired_world_def
  some_conversation_def session_at_def text_from_def messages_change_def delivery_of_def
  known_world_def long_id_def save_hi_def first_save_def second_save_def

section \<open>The claims\<close>

text \<open>
  C1 (the code breaks it). saveSession is meant as an upsert keyed by the user: after a
  call, one session row of the user holds the payload, step and expiry passed. On the
  schema initializeDatabase creates, \<^verbatim>\<open>bot_sessions.phone_number\<close> has no unique index,
  so the statement's \<^verbatim>\<open>ON CONFLICT (phone_number)\<close> finds no arbiter: every call of
  saveSession throws and the table is left as it was.
\<close>

theorem saveSession_has_no_arbiter:
  "saveSession e p d st x w =
     (Inl (StoreError ''no unique or exclusion constraint matching ON CONFLICT''),
      record_event (Store ''saveSession'' p) w)
   \<and> bot_sessions (db (snd (saveSession e p d st x w))) = bot_sessions (db w)"
  by (simp add: store_refuses_saveSession record_event_def)




text \<open>
  C3, as stated, fails: a session whose step is none of the five recognized ones is not
  answered with the menu. handleStep's \<^verbatim>\<open>default\<close> branch replies with a text and
  sends the session to \<^verbatim>\<open>welcome\<close>.
\<close>

theorem handleStep_unrecognized_counterexample:
  "map_sum id type (fst (handleStep env_up (session_at (Some ''checkout'')) ''hello''
       some_conversation empty_world)) = Inr ''text''
   \<and> map_sum id buttons (fst (handleStep env_up (session_at (Some ''checkout'')) ''hello''
       some_conversation empty_world)) = Inr None
   \<and> map_sum id nextStep (fst (handleStep env_up (session_at (Some ''checkout'')) ''hello''
       some_conversation empty_world)) = Inr ''welcome''"
  by (simp add: handleStep_def session_at_def blank_def)

text \<open>
  C3 (amended). For every session whose current step is \<^verbatim>\<open>welcome\<close>, handleStep with
  any inbound text returns the interactive response with the buttons "Generate Image",
  "Generate Video", "Get Information", next step \<^verbatim>\<open>menu_selection\<close> and the session's
  payload. For every session whose step is absent or not one of the five recognized
  steps, it returns the text reply that asks to type "start" or "menu", with next step
  \<^verbatim>\<open>welcome\<close> and an empty payload. Neither has any effect.
\<close>

theorem handleStep_welcome_and_default:
  "(s_current_step s = Some ''welcome'' \<longrightarrow>
      handleStep e s str conv w =
        (Inr (blank\<lparr>type := ''interactive'', header := Some welcome_header,
               body := Some ''What would you like to do today?'',
               buttons := Some [''Generate Image'', ''Generate Video'', ''Get Information''],
               nextStep := ''menu_selection'', sessionData := payload_of s\<rparr>), w))
   \<and> (unrecognized (s_current_step s) \<longrightarrow>
      handleStep e s str conv w =
        (Inr (blank\<lparr>type := ''text'',
               content := Some (''Hi! Type '' @ [CHR 0x22] @ ''start'' @ [CHR 0x22]
                                @ '' to begin or '' @ [CHR 0x22] @ ''menu''
                                @ [CHR 0x22] @ '' to see options.''),
               nextStep := ''welcome'', sessionData := []\<rparr>), w))"
  by (auto simp: handleStep_def payload_of_def unrecognized_def recognized_steps_def Let_def
           split: option.splits)

theorem handleStep_welcome_and_default_witness:
  "s_current_step (session_at (Some ''welcome'')) = Some ''welcome''
   \<and> handleStep env_up (session_at (Some ''welcome'')) ''hi'' some_conversation empty_world =
       (Inr (blank\<lparr>type := ''interactive'', header := Some welcome_header,
              body := Some ''What would you like to do today?'',
              buttons := Some [''Generate Image'', ''Generate Video'', ''Get Information''],
              nextStep := ''menu_selection'',
              sessionData := [(''service'', JString ''video'')]\<rparr>), empty_world)
   \<and> unrecognized (s_current_step (session_at None))
   \<and> handleStep env_up (session_at None) ''hi'' some_conversation empty_world =
       (Inr (blank\<lparr>type := ''text'',
              content := Some (''Hi! Type '' @ [CHR 0x22] @ ''start'' @ [CHR 0x22]
                               @ '' to begin or '' @ [CHR 0x22] @ ''menu''
                               @ [CHR 0x22] @ '' to see options.''),
              nextStep := ''welcome'', sessionData := []\<rparr>), empty_world)"
  using handleStep_welcome_and_default
      [of "session_at (Some ''welcome'')" env_up "''hi''" some_conversation empty_world]
    handleStep_welcome_and_default
      [of "session_at None" env_up "''hi''" some_conversation empty_world]
  by (simp add: session_at_def payload_of_def unrecognized_def)

text \<open>
  C4 (the code breaks it). processMessage catches whatever its seven steps throw and
  sends the apology, but the apology send stands unguarded in the \<^verbatim>\<open>catch\<close> block and
  sendMessage throws again what its post threw. With the messaging platform refusing
  posts, the reply fails, then the apology fails, and processMessage rejects with that
  error; in the webhook handler nobody awaits it.
\<close>

theorem processMessage_rejects_when_apology_fails:
  "fst (processMessage env_platform_down ''15550001111'' ''hi'' (Some ''wamid.A1'') (Some ''Ann'')
          empty_world) = Inl DeliveryError
   \<and> trace (snd (processMessage env_platform_down ''15550001111'' ''hi'' (Some ''wamid.A1'')
          (Some ''Ann'') empty_world)) =
       [Store ''getOrCreateConversation'' ''15550001111'', Store ''saveMessage'' ''15550001111'',
        Store ''getSession'' ''15550001111'', Send (welcome_menu ''15550001111'') False,
        Send (TextMessage ''15550001111'' (Some apology)) False]
   \<and> trace (snd (post_webhook env_platform_down
          (delivery_of [text_from ''15550001111'' ''wamid.A1'' (Some ''hi'')]) empty_world)) =
       [Store ''getOrCreateConversation'' ''15550001111'', Store ''saveMessage'' ''15550001111'',
        Store ''getSession'' ''15550001111'', Send (welcome_menu ''15550001111'') False,
        Send (TextMessage ''15550001111'' (Some apology)) False, Unhandled DeliveryError]"
  by (simp add: run_defs sample_defs)

text \<open>
  C5. In step \<^verbatim>\<open>menu_selection\<close>, for every inbound text: when the text contains the
  title "Generate Image" or, in any case of letters, the word "image", the reply asks for
  the image description, the next step is \<^verbatim>\<open>image_input\<close> and the payload gets
  service = image, whatever else the text contains; otherwise the same for "Generate
  Video" or "video", then for "Get Information" or "information"; and when none of the
  six is found the step stays \<^verbatim>\<open>menu_selection\<close>, the payload is the session's and the
  reply asks to select an option. The step has no effect.
\<close>

theorem handleStep_menu_selection:
  assumes "s_current_step s = Some ''menu_selection''"
  shows "(contains str ''Generate Image'' \<or> contains_ignoring_case str ''image'' \<longrightarrow>
            handleStep e s str conv w =
              (Inr (blank\<lparr>type := ''text'',
                     content := Some ''Great! Please describe the image you want me to generate.'',
                     nextStep := ''image_input'',
                     sessionData := spread_with (payload_of s) ''service'' (JString ''image'')\<rparr>),
               w)
            \<and> map_of (spread_with (payload_of s) ''service'' (JString ''image'')) ''service''
                = Some (JString ''image''))
    \<and> (\<not> (contains str ''Generate Image'' \<or> contains_ignoring_case str ''image'') \<and>
          (contains str ''Generate Video'' \<or> contains_ignoring_case str ''video'') \<longrightarrow>
            handleStep e s str conv w =
              (Inr (blank\<lparr>type := ''text'',
                     content := Some ''Awesome! Please describe the video you want me to create.'',
                     nextStep := ''video_input'',
                     sessionData := spread_with (payload_of s) ''service'' (JString ''video'')\<rparr>),
               w))
    \<and> (\<not> (contains str ''Generate Image'' \<or> contains_ignoring_case str ''image'') \<and>
          \<not> (contains str ''Generate Video'' \<or> contains_ignoring_case str ''video'') \<and>
          (contains str ''Get Information'' \<or> contains_ignoring_case str ''information'') \<longrightarrow>
            handleStep e s str conv w =
              (Inr (blank\<lparr>type := ''text'',
                     content := Some ''What information would you like me to help you find?'',
                     nextStep := ''info_input'',
                     sessionData := spread_with (payload_of s) ''service'' (JString ''info'')\<rparr>),
               w))
    \<and> (\<not> (contains str ''Generate Image'' \<or> contains_ignoring_case str ''image'') \<and>
          \<not> (contains str ''Generate Video'' \<or> contains_ignoring_case str ''video'') \<and>
          \<not> (contains str ''Get Information'' \<or> contains_ignoring_case str ''information'') \<longrightarrow>
            handleStep e s str conv w =
              (Inr (blank\<lparr>type := ''text'',
                     content := Some (''Please select one of the options: Generate Image, ''
                                      @ ''Generate Video, or Get Information.''),
                     nextStep := ''menu_selection'', sessionData := payload_of s\<rparr>), w))"
  using assms
  by (simp add: handleStep_def includes_str_iff contains_lower_iff payload_of_def Let_def
        map_of_spread_with)

theorem handleStep_menu_selection_witness:
  "s_current_step (session_at (Some ''menu_selection'')) = Some ''menu_selection''
   \<and> contains_ignoring_case ''An IMAGE, then a video'' ''image''
   \<and> contains_ignoring_case ''An IMAGE, then a video'' ''video''
   \<and> handleStep env_up (session_at (Some ''menu_selection'')) ''An IMAGE, then a video''
         some_conversation empty_world =
       (Inr (blank\<lparr>type := ''text'',
              content := Some ''Great! Please describe the image you want me to generate.'',
              nextStep := ''image_input'',
              sessionData := [(''service'', JString ''image'')]\<rparr>), empty_world)
   \<and> \<not> (contains ''Generate Video'' ''Generate Image''
          \<or> contains_ignoring_case ''Generate Video'' ''image'')
   \<and> contains ''Generate Video'' ''Generate Video''
   \<and> handleStep env_up (session_at (Some ''menu_selection'')) ''Generate Video''
         some_conversation empty_world =
       (Inr (blank\<lparr>type := ''text'',
              content := Some ''Awesome! Please describe the video you want me to create.'',
              nextStep := ''video_input'',
              sessionData := [(''service'', JString ''video'')]\<rparr>), empty_world)
   \<and> \<not> (contains ''more INFORMATION'' ''Generate Image''
          \<or> contains_ignoring_case ''more INFORMATION'' ''image'')
   \<and> \<not> (contains ''more INFORMATION'' ''Generate Video''
          \<or> contains_ignoring_case ''more INFORMATION'' ''video'')
   \<and> contains_ignoring_case ''more INFORMATION'' ''information''
   \<and> handleStep env_up (session_at (Some ''menu_selection'')) ''more INFORMATION''
         some_conversation empty_world =
       (Inr (blank\<lparr>type := ''text'',
              content := Some ''What information would you like me to help you find?'',
              nextStep := ''info_input'',
              sessionData := [(''service'', JString ''info'')]\<rparr>), empty_world)
   \<and> \<not> (contains ''hello'' ''Generate Image'' \<or> contains_ignoring_case ''hello'' ''image'')
   \<and> \<not> (contains ''hello'' ''Generate Video'' \<or> contains_ignoring_case ''hello'' ''video'')
   \<and> \<not> (contains ''hello'' ''Get Information''
          \<or> contains_ignoring_case ''hello'' ''information'')
   \<and> handleStep env_up (session_at (Some ''menu_selection'')) ''hello''
         some_conversation empty_world =
       (Inr (blank\<lparr>type := ''text'',
              content := Some (''Please select one of the options: Generate Image, ''
                               @ ''Generate Video, or Get Information.''),
              nextStep := ''menu_selection'',
              sessionData := [(''service'', JString ''video'')]\<rparr>), empty_world)"
proof -
  have step: "s_current_step (session_at (Some ''menu_selection'')) = Some ''menu_selection''"
    by (simp add: session_at_def)
  have pl: "payload_of (session_at (Some ''menu_selection'')) = [(''service'', JString ''video'')]"
    by (simp add: payload_of_def session_at_def)
  have a: "contains_ignoring_case ''An IMAGE, then a video'' ''image''"
    "contains_ignoring_case ''An IMAGE, then a video'' ''video''"
    by (simp_all add: search_eval)
  have b: "\<not> (contains ''Generate Video'' ''Generate Image''
          \<or> contains_ignoring_case ''Generate Video'' ''image'')"
    "contains ''Generate Video'' ''Generate Video''"
    by (simp_all add: search_eval)
  have c: "\<not> (contains ''more INFORMATION'' ''Generate Image''
          \<or> contains_ignoring_case ''more INFORMATION'' ''image'')"
    "\<not> (contains ''more INFORMATION'' ''Generate Video''
          \<or> contains_ignoring_case ''more INFORMATION'' ''video'')"
    "contains_ignoring_case ''more INFORMATION'' ''information''"
    by (simp_all add: search_eval)
  have d: "\<not> (contains ''hello'' ''Generate Image'' \<or> contains_ignoring_case ''hello'' ''image'')"
    "\<not> (contains ''hello'' ''Generate Video'' \<or> contains_ignoring_case ''hello'' ''video'')"
    "\<not> (contains ''hello'' ''Get Information''
          \<or> contains_ignoring_case ''hello'' ''information'')"
    by (simp_all add: search_eval)
  note inst = handleStep_menu_selection [OF step, where e = env_up and conv = some_conversation
      and w = empty_world]
  from inst [of "''An IMAGE, then a video''"] inst [of "''Generate Video''"]
    inst [of "''more INFORMATION''"] inst [of "''hello''"] step a b c d
  show ?thesis by (simp add: pl)
qed

text \<open>
  C6. When the upstream call of the generation gateway times out, fails or returns a
  status outside 200..299, callCustomAPI does not raise: it returns the fixed fallback
  (placeholder image URL, placeholder video URL, apology text). handleStep in
  \<^verbatim>\<open>image_input\<close>, \<^verbatim>\<open>video_input\<close> and \<^verbatim>\<open>info_input\<close> then returns the media or text
  response built from the fallback, with next step \<^verbatim>\<open>welcome\<close> and an empty payload;
  its only effect is the one post to the endpoint.
\<close>

theorem generation_failure_fallback:
  assumes "failed (upstream e (length (trace w)))"
  shows "callCustomAPI e svc request w = (Inr fallback, record_event (Generate svc request) w)
    \<and> (s_current_step s = Some ''image_input'' \<longrightarrow>
        handleStep e s str conv w =
          (Inr (blank\<lparr>type := ''media'', url := imageUrl fallback, mediaType := Some ''image'',
                 caption := Some (''Here's your generated image based on: ''
                                  @ [CHR 0x22] @ str @ [CHR 0x22]),
                 nextStep := ''welcome'', sessionData := []\<rparr>),
           record_event (Generate Image
              \<lparr>prompt = Some str, query = None, user = c_phone_number conv\<rparr>) w))
    \<and> (s_current_step s = Some ''video_input'' \<longrightarrow>
        handleStep e s str conv w =
          (Inr (blank\<lparr>type := ''media'', url := videoUrl fallback, mediaType := Some ''video'',
                 caption := Some (''Here's your generated video: ''
                                  @ [CHR 0x22] @ str @ [CHR 0x22]),
                 nextStep := ''welcome'', sessionData := []\<rparr>),
           record_event (Generate Video
              \<lparr>prompt = Some str, query = None, user = c_phone_number conv\<rparr>) w))
    \<and> (s_current_step s = Some ''info_input'' \<longrightarrow>
        handleStep e s str conv w =
          (Inr (blank\<lparr>type := ''text'', content := response fallback,
                 nextStep := ''welcome'', sessionData := []\<rparr>),
           record_event (Generate Info
              \<lparr>prompt = None, query = Some str, user = c_phone_number conv\<rparr>) w))"
  using assms by (simp add: handleStep_def callCustomAPI_failed Let_def)

theorem generation_failure_fallback_witness:
  "failed (upstream env_upstream_down (length (trace empty_world)))
   \<and> handleStep env_upstream_down (session_at (Some ''image_input'')) ''a red bicycle''
         some_conversation empty_world =
       (Inr (blank\<lparr>type := ''media'',
              url := Some ''https://via.placeholder.com/400x400?text=Error+Generating+Image'',
              mediaType := Some ''image'',
              caption := Some (''Here's your generated image based on: ''
                               @ [CHR 0x22] @ ''a red bicycle'' @ [CHR 0x22]),
              nextStep := ''welcome'', sessionData := []\<rparr>),
        record_event (Generate Image
           \<lparr>prompt = Some ''a red bicycle'', query = None, user = ''15550001111''\<rparr>) empty_world)
   \<and> handleStep env_upstream_down (session_at (Some ''video_input'')) ''a red bicycle''
         some_conversation empty_world =
       (Inr (blank\<lparr>type := ''media'',
              url := Some ''https://sample-videos.com/zip/10/mp4/SampleVideo_1280x720_1mb.mp4'',
              mediaType := Some ''video'',
              caption := Some (''Here's your generated video: ''
                               @ [CHR 0x22] @ ''a red bicycle'' @ [CHR 0x22]),
              nextStep := ''welcome'', sessionData := []\<rparr>),
        record_event (Generate Video
           \<lparr>prompt = Some ''a red bicycle'', query = None, user = ''15550001111''\<rparr>) empty_world)
   \<and> handleStep env_upstream_down (session_at (Some ''info_input'')) ''a red bicycle''
         some_conversation empty_world =
       (Inr (blank\<lparr>type := ''text'',
              content := Some (''Sorry, I could not process your request right now. ''
                               @ ''Please try again later.''),
              nextStep := ''welcome'', sessionData := []\<rparr>),
        record_event (Generate Info
           \<lparr>prompt = None, query = Some ''a red bicycle'', user = ''15550001111''\<rparr>) empty_world)"
proof -
  have f: "failed (upstream env_upstream_down (length (trace empty_world)))"
    by (simp add: env_upstream_down_def env_up_def empty_world_def)
  note inst = generation_failure_fallback [OF f, where str = "''a red bicycle''"
      and conv = some_conversation and svc = Image
      and request = "\<lparr>prompt = None, query = None, user = []\<rparr>"]
  from inst [of "session_at (Some ''image_input'')"] inst [of "session_at (Some ''video_input'')"]
    inst [of "session_at (Some ''info_input'')"] f
  show ?thesis by (simp add: session_at_def some_conversation_def fallback_def)
qed



text \<open>
  C8 (the code breaks it, in the minimal server). The bot server answers every
  verification request, 200 with the challenge exactly when the mode is "subscribe" and
  the token is the configured one, 403 otherwise. The minimal server puts the same check
  under \<^verbatim>\<open>if (mode && token)\<close> without an \<^verbatim>\<open>else\<close>: a request that lacks the mode
  gets no response, neither 200 nor 403.
\<close>

theorem get_webhook_minimal_no_response:
  "get_webhook_minimal (Some ''secret'')
     \<lparr>hub_mode = None, hub_verify_token = Some (QString ''secret''),
      hub_challenge = Some (QString ''12345'')\<rparr> = None
   \<and> get_webhook (Some ''secret'')
     \<lparr>hub_mode = None, hub_verify_token = Some (QString ''secret''),
      hub_challenge = Some (QString ''12345'')\<rparr> = Response 403 (Some (QString ''Forbidden''))"
  by (simp add: get_webhook_minimal_def get_webhook_def)

text \<open>
  C9 (the code breaks it). The outbound id is \<^verbatim>\<open>out_\<close> followed by the millisecond
  clock, so two sends within one millisecond get the same id. In one delivery with a
  message from each of two users, both users are sent the menu, but only the first
  outbound row is stored: the second insert conflicts on the id and does nothing.
\<close>

theorem outbound_ids_collide:
  "accepted_sends (trace (snd (post_webhook env_up
      (delivery_of [text_from ''15550001111'' ''wamid.A1'' (Some ''hi''),
                    text_from ''15550002222'' ''wamid.B1'' (Some ''hello'')]) empty_world))) =
     [welcome_menu ''15550001111'', TextMessage ''15550001111'' (Some apology),
      welcome_menu ''15550002222'', TextMessage ''15550002222'' (Some apology)]
   \<and> map m_message_id (outbound_rows (db (snd (post_webhook env_up
      (delivery_of [text_from ''15550001111'' ''wamid.A1'' (Some ''hi''),
                    text_from ''15550002222'' ''wamid.B1'' (Some ''hello'')]) empty_world)))) =
     [Some ''out_1762142400000'']
   \<and> map m_phone_number (outbound_rows (db (snd (post_webhook env_up
      (delivery_of [text_from ''15550001111'' ''wamid.A1'' (Some ''hi''),
                    text_from ''15550002222'' ''wamid.B1'' (Some ''hello'')]) empty_world)))) =
     [''15550001111'']"
  by (simp add: run_defs sample_defs outbound_rows_def)

text \<open>
  C10. A message of a delivery whose text body is absent or empty changes nothing: the
  callback returns the world as it was, with no call of the store, no send and no post
  recorded. Hence a delivery has the effect of the same delivery without its textless
  messages.
\<close>

theorem textless_messages_skipped:
  "(\<not> truthy (wm_text_body msg) \<longrightarrow> on_message e chg msg w = w)
   \<and> post_webhook e b w = post_webhook e (drop_textless b) w"
  by (cases "wb_entry b")
     (simp_all add: on_message_textless post_webhook_def drop_textless_def fold_on_entry_drop)

theorem textless_messages_skipped_witness:
  "\<not> truthy (wm_text_body (text_from ''15550001111'' ''wamid.M1'' None))
   \<and> on_message env_up (messages_change []) (text_from ''15550001111'' ''wamid.M1'' None)
       expired_world = expired_world
   \<and> \<not> truthy (wm_text_body (text_from ''15550001111'' ''wamid.M2'' (Some [])))
   \<and> on_message env_up (messages_change []) (text_from ''15550001111'' ''wamid.M2'' (Some []))
       expired_world = expired_world
   \<and> post_webhook env_up
       (delivery_of [text_from ''15550001111'' ''wamid.M1'' None,
                     text_from ''15550001111'' ''wamid.M2'' (Some [])]) expired_world =
       (Response 200 (Some (QString ''OK'')), expired_world)"
  using textless_messages_skipped
      [of "text_from ''15550001111'' ''wamid.M1'' None" env_up "messages_change []" expired_world
          "delivery_of [text_from ''15550001111'' ''wamid.M1'' None,
                        text_from ''15550001111'' ''wamid.M2'' (Some [])]"]
    textless_messages_skipped
      [of "text_from ''15550001111'' ''wamid.M2'' (Some [])" env_up "messages_change []"
          expired_world "delivery_of []"]
  by (simp add: truthy_def text_from_def delivery_of_def messages_change_def drop_textless_def
        drop_textless_entry_def drop_textless_change_def post_webhook_def on_entry_def
        on_change_def)

end
